theory Spec2Isabelle
  imports Main "HOL-Library.Word"
begin

unbundle bit_operations_syntax

section \<open>The flash driver of the bootloader (Src/flash.c)\<close>

text \<open>
  The driver is a thin sequencing layer over the vendor HAL. The embedding keeps the
  driver's four functions as they are written and makes their effects explicit: every
  call into the HAL is appended, with its outcome, to a trace carried by the machine
  state, next to the lock bit of the flash controller and the hardware state the HAL
  acts on.
\<close>

subsection \<open>Machine integers and the constants of flash.c\<close>

type_synonym uint32_t = "32 word"
type_synonym uint64_t = "64 word"

text \<open>\<^verbatim>\<open>#define FLASH_START_ADRESS 0x08000000\<close>\<close>
definition FLASH_START_ADRESS :: uint32_t where
  "FLASH_START_ADRESS = 0x08000000"

text \<open>\<^verbatim>\<open>#define FLASH_PAGE_NBPERBANK 256\<close>\<close>
definition FLASH_PAGE_NBPERBANK :: uint32_t where
  "FLASH_PAGE_NBPERBANK = 256"

text \<open>\<^verbatim>\<open>#define USER_FLASH_END_ADDRESS 0x08080000\<close>\<close>
definition USER_FLASH_END_ADDRESS :: uint32_t where
  "USER_FLASH_END_ADDRESS = 0x08080000"

subsection \<open>What flash.h and the device header declare\<close>

text \<open>
  The enumeration \<^verbatim>\<open>flash_status\<close> is kept by the integer values of its enumerators,
  because \<^verbatim>\<open>flash_write\<close> combines them with \<^verbatim>\<open>|=\<close>.
\<close>
type_synonym flash_status = "32 word"

text \<open>
  flash.h and the device header are not among the sources. The constants flash.c takes
  from them are parameters of the model: the flash size and page size of the part, the
  base address of the application image, and the values of the four enumerators of
  \<^verbatim>\<open>flash_status\<close> that flash.c uses.
\<close>
record flash_h =
  FLASH_SIZE :: uint32_t
  FLASH_PAGE_SIZE :: uint32_t
  FLASH_APP_START_ADDRESS :: uint32_t
  FLASH_OK :: flash_status
  FLASH_ERROR :: flash_status
  FLASH_ERROR_READBACK :: flash_status
  FLASH_ERROR_WRITE :: flash_status

subsection \<open>The HAL's types\<close>

datatype HAL_StatusTypeDef = HAL_OK | HAL_ERROR | HAL_BUSY | HAL_TIMEOUT

datatype flash_bank = FLASH_BANK_1 | FLASH_BANK_2

datatype flash_typeerase = FLASH_TYPEERASE_PAGES | FLASH_TYPEERASE_MASSERASE

datatype flash_flag =
  FLASH_FLAG_EOP | FLASH_FLAG_PGSERR | FLASH_FLAG_WRPERR | FLASH_FLAG_OPTVERR

record FLASH_EraseInitTypeDef =
  TypeErase :: flash_typeerase
  Banks :: flash_bank
  Page :: uint32_t
  NbPages :: uint32_t

subsection \<open>The machine: hardware, lock bit, trace\<close>

text \<open>
  One entry of the trace for each thing the driver does to the machine, in program
  order. An erase or program call is recorded with the status the HAL returned; the
  comparison of line 110 is recorded with the two values it compares (the 8 bytes read
  back from flash, then the source double-word).
\<close>
datatype hal_call =
    Unlock_Call
  | Lock_Call
  | Clear_Flag_Call "flash_flag list"
  | Erase_Call FLASH_EraseInitTypeDef HAL_StatusTypeDef
  | Program_Call uint32_t uint64_t HAL_StatusTypeDef
  | Read_Back uint32_t uint64_t uint64_t
  | DeInit_Call
  | Set_MSP_Call uint32_t
  | Branch_To uint32_t

text \<open>
  The vendor HAL and the flash array behind it are outside the repository. Their
  behaviour is a parameter: \<open>'h\<close> is the state of the hardware, and a value of this record
  says how each primitive answers and what it does to that state. Nothing is assumed of
  the answers: an erase or a program call may fail at any time, and reading back may
  return anything.
\<close>
record 'h HAL =
  hal_erase :: "FLASH_EraseInitTypeDef \<Rightarrow> 'h \<Rightarrow> HAL_StatusTypeDef \<times> 'h"
  hal_program :: "uint32_t \<Rightarrow> uint64_t \<Rightarrow> 'h \<Rightarrow> HAL_StatusTypeDef \<times> 'h"
  hal_clear_flag :: "flash_flag list \<Rightarrow> 'h \<Rightarrow> 'h"
  hal_deinit :: "'h \<Rightarrow> 'h"
  mem_read32 :: "'h \<Rightarrow> uint32_t \<Rightarrow> uint32_t"
  mem_read64 :: "'h \<Rightarrow> uint32_t \<Rightarrow> uint64_t"

record 'h mcu =
  hw :: 'h
  locked :: bool
  msp :: uint32_t
  jumped :: "uint32_t option"
  calls :: "hal_call list"

subsection \<open>The primitives the driver calls\<close>

text \<open>
  Modelled from the spec: the HAL's \<^verbatim>\<open>HAL_FLASH_Unlock\<close> and \<^verbatim>\<open>HAL_FLASH_Lock\<close> are
  not among the sources. The spec's glossary gives them as the hardware sequence that
  enables, respectively disables, write access to the flash control registers; the
  driver ignores the status they return.
\<close>
definition HAL_FLASH_Unlock :: "'h mcu \<Rightarrow> 'h mcu" where
  "HAL_FLASH_Unlock s = s\<lparr>locked := False, calls := calls s @ [Unlock_Call]\<rparr>"

definition HAL_FLASH_Lock :: "'h mcu \<Rightarrow> 'h mcu" where
  "HAL_FLASH_Lock s = s\<lparr>locked := True, calls := calls s @ [Lock_Call]\<rparr>"

text \<open>The macro \<^verbatim>\<open>__HAL_FLASH_CLEAR_FLAG\<close>: it yields no value.\<close>
definition HAL_FLASH_CLEAR_FLAG :: "'h HAL \<Rightarrow> flash_flag list \<Rightarrow> 'h mcu \<Rightarrow> 'h mcu" where
  "HAL_FLASH_CLEAR_FLAG hal flags s =
     s\<lparr>hw := hal_clear_flag hal flags (hw s), calls := calls s @ [Clear_Flag_Call flags]\<rparr>"

definition HAL_FLASHEx_Erase ::
  "'h HAL \<Rightarrow> FLASH_EraseInitTypeDef \<Rightarrow> 'h mcu \<Rightarrow> HAL_StatusTypeDef \<times> 'h mcu" where
  "HAL_FLASHEx_Erase hal pEraseInit s =
     (case hal_erase hal pEraseInit (hw s) of
        (r, h) \<Rightarrow> (r, s\<lparr>hw := h, calls := calls s @ [Erase_Call pEraseInit r]\<rparr>))"

definition HAL_FLASH_Program ::
  "'h HAL \<Rightarrow> uint32_t \<Rightarrow> uint64_t \<Rightarrow> 'h mcu \<Rightarrow> HAL_StatusTypeDef \<times> 'h mcu" where
  "HAL_FLASH_Program hal address dw s =
     (case hal_program hal address dw (hw s) of
        (r, h) \<Rightarrow> (r, s\<lparr>hw := h, calls := calls s @ [Program_Call address dw r]\<rparr>))"

text \<open>
  Line 110, \<^verbatim>\<open>*(uint64_t*)address != *(uint64_t *)(data+2*i)\<close>: the 8 bytes at the
  destination are read and compared with the source double-word. The result is whether
  they differ.
\<close>
definition read_back :: "'h HAL \<Rightarrow> uint32_t \<Rightarrow> uint64_t \<Rightarrow> 'h mcu \<Rightarrow> bool \<times> 'h mcu" where
  "read_back hal address dw s =
     (let v = mem_read64 hal (hw s) address
      in (v \<noteq> dw, s\<lparr>calls := calls s @ [Read_Back address v dw]\<rparr>))"

definition HAL_DeInit :: "'h HAL \<Rightarrow> 'h mcu \<Rightarrow> 'h mcu" where
  "HAL_DeInit hal s = s\<lparr>hw := hal_deinit hal (hw s), calls := calls s @ [DeInit_Call]\<rparr>"

definition set_MSP :: "uint32_t \<Rightarrow> 'h mcu \<Rightarrow> 'h mcu" where
  "set_MSP topOfMainStack s =
     s\<lparr>msp := topOfMainStack, calls := calls s @ [Set_MSP_Call topOfMainStack]\<rparr>"

text \<open>
  The call through the function pointer, up to the moment the processor is handed to the
  code at the entry address: the target is recorded.
\<close>
definition branch_to :: "uint32_t \<Rightarrow> 'h mcu \<Rightarrow> 'h mcu" where
  "branch_to entry s = s\<lparr>jumped := Some entry, calls := calls s @ [Branch_To entry]\<rparr>"

subsection \<open>FLASH\_Init\<close>

definition FLASH_Init :: "'h HAL \<Rightarrow> 'h mcu \<Rightarrow> 'h mcu" where
  "FLASH_Init hal s0 =
     (let s1 = HAL_FLASH_Unlock s0;
          s2 = HAL_FLASH_CLEAR_FLAG hal
                 [FLASH_FLAG_EOP, FLASH_FLAG_PGSERR, FLASH_FLAG_WRPERR, FLASH_FLAG_OPTVERR] s1
      in HAL_FLASH_Lock s2)"

subsection \<open>flash\_erase\<close>

text \<open>
  Lines 52 and 53: the number of pages from \<open>address\<close> to the end of the flash, in
  32-bit unsigned arithmetic. The subtraction wraps for an address past the end; the
  division is the unsigned one, and is only reached with a page size that is not zero.
\<close>
definition NbrOfPages_from :: "flash_h \<Rightarrow> uint32_t \<Rightarrow> uint32_t" where
  "NbrOfPages_from H address =
     ((FLASH_START_ADRESS + FLASH_SIZE H) - address) div FLASH_PAGE_SIZE H"

text \<open>
  In C the division by a page size of zero is undefined. The model ends such a call with
  a fault instead of a result.
\<close>
datatype fault = Divide_By_Zero

definition flash_erase ::
  "flash_h \<Rightarrow> 'h HAL \<Rightarrow> uint32_t \<Rightarrow> 'h mcu \<Rightarrow> fault + (flash_status \<times> 'h mcu)" where
  "flash_erase H hal address s0 =
     (let s1 = HAL_FLASH_Unlock s0 in
      if FLASH_PAGE_SIZE H = 0 then Inl Divide_By_Zero
      else
        let NbrOfPages = NbrOfPages_from H address;
            status = FLASH_ERROR H;
            (hal_status, NbrOfPages, s2) =
              (if NbrOfPages > FLASH_PAGE_NBPERBANK then
                 let n1 = NbrOfPages mod FLASH_PAGE_NBPERBANK;
                     pEraseInit = \<lparr>TypeErase = FLASH_TYPEERASE_PAGES, Banks = FLASH_BANK_1,
                                   Page = FLASH_PAGE_NBPERBANK - n1, NbPages = n1\<rparr>;
                     (r, s) = HAL_FLASHEx_Erase hal pEraseInit s1
                 in (r, FLASH_PAGE_NBPERBANK, s)
               else (HAL_OK, NbrOfPages, s1));
            (hal_status, s3) =
              (if hal_status = HAL_OK then
                 let pEraseInit = \<lparr>TypeErase = FLASH_TYPEERASE_PAGES, Banks = FLASH_BANK_2,
                                   Page = FLASH_PAGE_NBPERBANK - NbrOfPages,
                                   NbPages = NbrOfPages\<rparr>
                 in HAL_FLASHEx_Erase hal pEraseInit s2
               else (hal_status, s2));
            status = (if HAL_OK = hal_status then FLASH_OK H else status);
            s4 = HAL_FLASH_Lock s3
        in Inr (status, s4))"

subsection \<open>flash\_write\<close>

text \<open>
  \<^verbatim>\<open>*((uint64_t *)(data+2*i))\<close>: the source is an array of 32-bit words in RAM,
  \<open>data k\<close> being the word at \<^verbatim>\<open>data[k]\<close>; the core is little-endian, so the word at
  the lower index is the lower half of the double-word. The caller gives the length
  apart from the pointer, so the array is a function of the index. The driver reads the
  double-word for the program call (line 107) and again for the comparison (line 110);
  the HAL does not write to the array in between, so both reads give the same value.
\<close>
definition src_dword :: "(nat \<Rightarrow> uint32_t) \<Rightarrow> uint32_t \<Rightarrow> uint64_t" where
  "src_dword data i = word_cat (data (2 * unat i + 1)) (data (2 * unat i))"

text \<open>
  The \<^verbatim>\<open>for\<close> loop of lines 103 to 125, from the state it has at the test of its
  condition: the index \<open>i\<close>, the destination \<open>address\<close> and \<open>status\<close>. A \<^verbatim>\<open>break\<close>
  is a return of the loop.
\<close>
function flash_write_loop ::
  "flash_h \<Rightarrow> 'h HAL \<Rightarrow> (nat \<Rightarrow> uint32_t) \<Rightarrow> uint32_t \<Rightarrow> uint32_t \<Rightarrow> uint32_t \<Rightarrow>
   flash_status \<Rightarrow> 'h mcu \<Rightarrow> flash_status \<times> 'h mcu" where
  "flash_write_loop H hal data len i address status s =
     (if i < len div 2 \<and> address \<le> USER_FLASH_END_ADDRESS - 8 then
        (case HAL_FLASH_Program hal address (src_dword data i) s of
           (r, s1) \<Rightarrow>
             if r = HAL_OK then
               (case read_back hal address (src_dword data i) s1 of
                  (differs, s2) \<Rightarrow>
                    if differs then (status OR FLASH_ERROR_READBACK H, s2)
                    else flash_write_loop H hal data len (i + 1) (address + 8) status s2)
             else (status OR FLASH_ERROR_WRITE H, s1))
      else (status, s))"
  by pat_completeness auto

text \<open>
  The loop ends: \<open>i\<close> stays below \<open>len div 2\<close>, so \<open>i + 1\<close> does not wrap and the
  number of double-words still to write goes down.
\<close>
termination flash_write_loop
proof (relation "measure (\<lambda>(H, hal, data, len, i, address, status, s). unat (len div 2) - unat i)")
  show "wf (measure (\<lambda>(H :: flash_h, hal :: 'a HAL, data :: nat \<Rightarrow> uint32_t, len :: uint32_t,
                       i :: uint32_t, address :: uint32_t, status :: flash_status, s :: 'a mcu).
                      unat (len div 2) - unat i))"
    by simp
next
  fix H :: flash_h and hal :: "'a HAL" and data :: "nat \<Rightarrow> uint32_t"
    and len i address :: uint32_t and status :: flash_status and s s2 :: "'a mcu"
  assume "i < len div 2 \<and> address \<le> USER_FLASH_END_ADDRESS - 8"
  then have lt: "unat i < unat (len div 2)"
    by (simp add: word_less_nat_alt)
  moreover have "unat (len div 2) < 2 ^ 32"
    using unsigned_less [of "len div 2"] by simp
  ultimately have "unat i + unat (1 :: uint32_t) < 2 ^ LENGTH(32)"
    by simp
  then have "unat (i + 1) = unat i + unat (1 :: uint32_t)"
    by (simp only: unat_add_lem)
  with lt
  show "((H, hal, data, len, i + 1, address + 8, status, s2),
         (H, hal, data, len, i, address, status, s))
        \<in> measure (\<lambda>(H, hal, data, len, i, address, status, s). unat (len div 2) - unat i)"
    by simp
qed

text \<open>
  \<^verbatim>\<open>flash_write\<close>: \<open>len\<close> is the parameter \<^verbatim>\<open>length\<close>, a count of 32-bit words.
\<close>
definition flash_write ::
  "flash_h \<Rightarrow> 'h HAL \<Rightarrow> uint32_t \<Rightarrow> (nat \<Rightarrow> uint32_t) \<Rightarrow> uint32_t \<Rightarrow> 'h mcu \<Rightarrow>
   flash_status \<times> 'h mcu" where
  "flash_write H hal address data len s0 =
     (let status = FLASH_OK H;
          i = 0;
          s1 = HAL_FLASH_Unlock s0;
          (status, s2) = flash_write_loop H hal data len i address status s1;
          s3 = HAL_FLASH_Lock s2
      in (status, s3))"

subsection \<open>flash\_jump\_to\_app\<close>

text \<open>
  The entry address is read before \<^verbatim>\<open>HAL_DeInit\<close> is called (line 144), the stack
  pointer after it (line 147). Line 148 is an ordinary call through the function pointer,
  and the function ends after it. The code at the entry address is not part of the
  repository, so it is a parameter \<open>app\<close>: given the entry address and the machine at the
  branch, it yields the machine with which it returns to its caller, or \<open>None\<close> if it
  keeps the processor. The result of the model is the machine at the branch, together
  with the machine with which \<^verbatim>\<open>flash_jump_to_app\<close> returns, \<open>None\<close> if it does not.
\<close>
definition flash_jump_to_app ::
  "flash_h \<Rightarrow> 'h HAL \<Rightarrow> (uint32_t \<Rightarrow> 'h mcu \<Rightarrow> 'h mcu option) \<Rightarrow> 'h mcu \<Rightarrow>
   'h mcu \<times> 'h mcu option" where
  "flash_jump_to_app H hal app s0 =
     (let jump_to_app = mem_read32 hal (hw s0) (FLASH_APP_START_ADDRESS H + 4);
          s1 = HAL_DeInit hal s0;
          s2 = set_MSP (mem_read32 hal (hw s1) (FLASH_APP_START_ADDRESS H)) s1;
          s3 = branch_to jump_to_app s2
      in (s3, app jump_to_app s3))"

subsection \<open>Reading the trace\<close>

text \<open>
  The program calls of a trace, in order: destination address, double-word and the
  status the HAL returned.
\<close>
fun program_calls :: "hal_call list \<Rightarrow> (uint32_t \<times> uint64_t \<times> HAL_StatusTypeDef) list" where
  "program_calls [] = []"
| "program_calls (Program_Call a v r # es) = (a, v, r) # program_calls es"
| "program_calls (_ # es) = program_calls es"

text \<open>
  The read-backs of a trace, in order: address, the 8 bytes read from flash, and the
  source double-word they are compared with.
\<close>
fun read_backs :: "hal_call list \<Rightarrow> (uint32_t \<times> uint64_t \<times> uint64_t) list" where
  "read_backs [] = []"
| "read_backs (Read_Back a got want # es) = (a, got, want) # read_backs es"
| "read_backs (_ # es) = read_backs es"

text \<open>
  The runs of the loop of \<^verbatim>\<open>flash_write\<close>, as a relation between the state of the
  loop at its test (\<open>i\<close>, \<open>address\<close>, \<open>status\<close>), the entries the loop adds to
  the trace, and the status it ends with. It is used in the proofs only.
\<close>
inductive write_run ::
  "flash_h \<Rightarrow> (nat \<Rightarrow> uint32_t) \<Rightarrow> uint32_t \<Rightarrow> uint32_t \<Rightarrow> uint32_t \<Rightarrow> flash_status \<Rightarrow>
   hal_call list \<Rightarrow> flash_status \<Rightarrow> bool"
  for H :: flash_h and data :: "nat \<Rightarrow> uint32_t" and len :: uint32_t where
  run_done:
    "\<not> (i < len div 2 \<and> address \<le> USER_FLASH_END_ADDRESS - 8) \<Longrightarrow>
     write_run H data len i address status [] status"
| run_write_error:
    "i < len div 2 \<Longrightarrow> address \<le> USER_FLASH_END_ADDRESS - 8 \<Longrightarrow> r \<noteq> HAL_OK \<Longrightarrow>
     write_run H data len i address status
       [Program_Call address (src_dword data i) r] (status OR FLASH_ERROR_WRITE H)"
| run_readback_error:
    "i < len div 2 \<Longrightarrow> address \<le> USER_FLASH_END_ADDRESS - 8 \<Longrightarrow> v \<noteq> src_dword data i \<Longrightarrow>
     write_run H data len i address status
       [Program_Call address (src_dword data i) HAL_OK, Read_Back address v (src_dword data i)]
       (status OR FLASH_ERROR_READBACK H)"
| run_next:
    "i < len div 2 \<Longrightarrow> address \<le> USER_FLASH_END_ADDRESS - 8 \<Longrightarrow>
     write_run H data len (i + 1) (address + 8) status evs st \<Longrightarrow>
     write_run H data len i address status
       (Program_Call address (src_dword data i) HAL_OK #
        Read_Back address (src_dword data i) (src_dword data i) # evs) st"

subsection \<open>A part, a test double of the HAL and a machine, to run the driver on\<close>

text \<open>
  Two parts with 2 KiB pages, of 512 KiB and of 1 MiB of flash, with one choice of
  values for the enumerators of \<^verbatim>\<open>flash_status\<close>: success is 0 and each error is a
  bit pattern of its own.
\<close>
definition part_512K :: flash_h where
  "part_512K = \<lparr>FLASH_SIZE = 0x80000, FLASH_PAGE_SIZE = 0x800,
                 FLASH_APP_START_ADDRESS = 0x08008000,
                 FLASH_OK = 0x00, FLASH_ERROR = 0xFF,
                 FLASH_ERROR_READBACK = 0x04, FLASH_ERROR_WRITE = 0x02\<rparr>"

definition part_1M :: flash_h where
  "part_1M = part_512K\<lparr>FLASH_SIZE := 0x100000\<rparr>"

text \<open>
  The test double keeps, for each address, the 8 bytes last programmed there. It fails
  an erase of a bank in \<open>bad_banks\<close>, fails a program call at an address in
  \<open>bad_prog\<close>, and reads back one more than what is stored at an address in
  \<open>bad_read\<close>.
\<close>
definition mock_HAL ::
  "flash_bank list \<Rightarrow> uint32_t list \<Rightarrow> uint32_t list \<Rightarrow> (uint32_t \<Rightarrow> uint64_t) HAL" where
  "mock_HAL bad_banks bad_prog bad_read =
     \<lparr>hal_erase = (\<lambda>e h. (if Banks e \<in> set bad_banks then HAL_ERROR else HAL_OK, h)),
      hal_program = (\<lambda>a v h. if a \<in> set bad_prog then (HAL_ERROR, h) else (HAL_OK, h(a := v))),
      hal_clear_flag = (\<lambda>flags h. h),
      hal_deinit = (\<lambda>h. h),
      mem_read32 = (\<lambda>h a. ucast (h a)),
      mem_read64 = (\<lambda>h a. if a \<in> set bad_read then h a + 1 else h a)\<rparr>"

text \<open>
  A machine whose flash holds an application image: the stack pointer \<open>0x20018000\<close> at
  the base of the image and the entry address \<open>0x08008101\<close> after it.
\<close>
definition mock_mcu :: "(uint32_t \<Rightarrow> uint64_t) mcu" where
  "mock_mcu = \<lparr>hw = (\<lambda>a. if a = 0x08008000 then 0x20018000
                          else if a = 0x08008004 then 0x08008101 else 0xFFFFFFFFFFFFFFFF),
                locked = True, msp = 0x20000400, jumped = None, calls = []\<rparr>"

text \<open>
  A test double whose \<^verbatim>\<open>HAL_DeInit\<close> writes \<open>0x20001000\<close> over the word at the base
  of the image, and is the plain test double otherwise.
\<close>
definition mock_HAL_deinit_writes :: "(uint32_t \<Rightarrow> uint64_t) HAL" where
  "mock_HAL_deinit_writes = (mock_HAL [] [] [])\<lparr>hal_deinit := (\<lambda>h. h(0x08008000 := 0x20001000))\<rparr>"

text \<open>An application that returns at once, and one that keeps the processor.\<close>
definition app_returns :: "uint32_t \<Rightarrow> (uint32_t \<Rightarrow> uint64_t) mcu \<Rightarrow> (uint32_t \<Rightarrow> uint64_t) mcu option" where
  "app_returns entry s = Some s"

definition app_runs_on :: "uint32_t \<Rightarrow> (uint32_t \<Rightarrow> uint64_t) mcu \<Rightarrow> (uint32_t \<Rightarrow> uint64_t) mcu option" where
  "app_runs_on entry s = None"

text \<open>The source array \<open>0, 1, 2, ...\<close>\<close>
definition mock_data :: "nat \<Rightarrow> uint32_t" where
  "mock_data k = of_nat k"

section \<open>Properties\<close>

subsection \<open>What flash\_erase returns, case by case\<close>

lemma flash_erase_one_bank:
  assumes "FLASH_PAGE_SIZE H \<noteq> 0" and "NbrOfPages_from H address \<le> FLASH_PAGE_NBPERBANK"
  shows "flash_erase H hal address s =
     (case hal_erase hal \<lparr>TypeErase = FLASH_TYPEERASE_PAGES, Banks = FLASH_BANK_2,
                          Page = FLASH_PAGE_NBPERBANK - NbrOfPages_from H address,
                          NbPages = NbrOfPages_from H address\<rparr> (hw s) of
        (r, h) \<Rightarrow> Inr (if r = HAL_OK then FLASH_OK H else FLASH_ERROR H,
                       s\<lparr>hw := h, locked := True,
                         calls := calls s @ [Unlock_Call,
                           Erase_Call \<lparr>TypeErase = FLASH_TYPEERASE_PAGES, Banks = FLASH_BANK_2,
                                       Page = FLASH_PAGE_NBPERBANK - NbrOfPages_from H address,
                                       NbPages = NbrOfPages_from H address\<rparr> r,
                           Lock_Call]\<rparr>))"
  using assms
  by (simp add: flash_erase_def Let_def HAL_FLASH_Unlock_def HAL_FLASH_Lock_def
      HAL_FLASHEx_Erase_def not_less [symmetric] split: prod.splits)

lemma flash_erase_two_banks:
  assumes "FLASH_PAGE_SIZE H \<noteq> 0" and "FLASH_PAGE_NBPERBANK < NbrOfPages_from H address"
  shows "flash_erase H hal address s =
     (let e1 = \<lparr>TypeErase = FLASH_TYPEERASE_PAGES, Banks = FLASH_BANK_1,
                Page = FLASH_PAGE_NBPERBANK - NbrOfPages_from H address mod FLASH_PAGE_NBPERBANK,
                NbPages = NbrOfPages_from H address mod FLASH_PAGE_NBPERBANK\<rparr>;
          e2 = \<lparr>TypeErase = FLASH_TYPEERASE_PAGES, Banks = FLASH_BANK_2,
                Page = 0, NbPages = FLASH_PAGE_NBPERBANK\<rparr>
      in case hal_erase hal e1 (hw s) of
        (r1, h1) \<Rightarrow>
          if r1 = HAL_OK then
            (case hal_erase hal e2 h1 of
               (r2, h2) \<Rightarrow> Inr (if r2 = HAL_OK then FLASH_OK H else FLASH_ERROR H,
                       s\<lparr>hw := h2, locked := True,
                         calls := calls s @ [Unlock_Call, Erase_Call e1 r1, Erase_Call e2 r2,
                                             Lock_Call]\<rparr>))
          else Inr (FLASH_ERROR H,
                    s\<lparr>hw := h1, locked := True,
                      calls := calls s @ [Unlock_Call, Erase_Call e1 r1, Lock_Call]\<rparr>))"
  using assms
  by (simp add: flash_erase_def Let_def HAL_FLASH_Unlock_def HAL_FLASH_Lock_def
      HAL_FLASHEx_Erase_def split: prod.splits)

subsection \<open>The loop of flash\_write and its runs\<close>

declare flash_write_loop.simps [simp del]


lemma flash_write_loop_run:
  "flash_write_loop H hal data len i address status s = (st, s') \<Longrightarrow>
   \<exists>evs. calls s' = calls s @ evs \<and> locked s' = locked s \<and>
         write_run H data len i address status evs st"
proof (induction H hal data len i address status s arbitrary: st s' rule: flash_write_loop.induct)
  case (1 H hal data len i address status s)
  let ?dw = "src_dword data i"
  show ?case
  proof (cases "i < len div 2 \<and> address \<le> USER_FLASH_END_ADDRESS - 8")
    case False
    with "1.prems" have "st = status" "s' = s"
      by (simp_all add: flash_write_loop.simps [of H hal data len i address status s])
    with False show ?thesis
      by (auto intro: write_run.run_done)
  next
    case True
    obtain r s1 where p: "HAL_FLASH_Program hal address ?dw s = (r, s1)"
      by (cases "HAL_FLASH_Program hal address ?dw s")
    then have s1: "calls s1 = calls s @ [Program_Call address ?dw r]" "locked s1 = locked s"
      by (auto simp: HAL_FLASH_Program_def split: prod.splits)
    show ?thesis
    proof (cases "r = HAL_OK")
      case False
      with True p "1.prems" have "st = status OR FLASH_ERROR_WRITE H" "s' = s1"
        by (simp_all add: flash_write_loop.simps [of H hal data len i address status s])
      with True False s1 show ?thesis
        by (auto intro: write_run.run_write_error)
    next
      case ok: True
      obtain differs s2 where rb: "read_back hal address ?dw s1 = (differs, s2)"
        by (cases "read_back hal address ?dw s1")
      then obtain v where s2: "calls s2 = calls s1 @ [Read_Back address v ?dw]"
        "locked s2 = locked s1" "differs = (v \<noteq> ?dw)"
        by (auto simp: read_back_def Let_def)
      show ?thesis
      proof (cases differs)
        case True
        with \<open>i < len div 2 \<and> address \<le> USER_FLASH_END_ADDRESS - 8\<close> p ok rb "1.prems"
        have "st = status OR FLASH_ERROR_READBACK H" "s' = s2"
          by (simp_all add: flash_write_loop.simps [of H hal data len i address status s])
        with \<open>i < len div 2 \<and> address \<le> USER_FLASH_END_ADDRESS - 8\<close> True s1 s2 ok show ?thesis
          by (auto intro: write_run.run_readback_error)
      next
        case False
        with \<open>i < len div 2 \<and> address \<le> USER_FLASH_END_ADDRESS - 8\<close> p ok rb "1.prems"
        have rec: "flash_write_loop H hal data len (i + 1) (address + 8) status s2 = (st, s')"
          by (simp add: flash_write_loop.simps [of H hal data len i address status s])
        from "1.IH" [OF \<open>i < len div 2 \<and> address \<le> USER_FLASH_END_ADDRESS - 8\<close> p [symmetric] ok
            rb [symmetric] False rec]
        obtain evs where evs: "calls s' = calls s2 @ evs" "locked s' = locked s2"
          "write_run H data len (i + 1) (address + 8) status evs st"
          by blast
        from False s2 have "v = ?dw" by simp
        with \<open>i < len div 2 \<and> address \<le> USER_FLASH_END_ADDRESS - 8\<close> evs s1 s2 ok show ?thesis
          by (auto intro: write_run.run_next)
      qed
    qed
  qed
qed

text \<open>
  Inside the loop neither the destination address nor the index wraps around.
\<close>
lemma unat_bound: "unat (USER_FLASH_END_ADDRESS - 8) = 0x0807FFF8"
  by (simp add: USER_FLASH_END_ADDRESS_def)

lemma unat_next_address:
  assumes "address \<le> USER_FLASH_END_ADDRESS - 8"
  shows "unat (address + 8) = unat address + 8"
proof -
  from assms have "unat address \<le> 0x0807FFF8"
    by (simp add: word_le_nat_alt unat_bound)
  then have "unat address + unat (8 :: uint32_t) < 2 ^ LENGTH(32)"
    by simp
  then have "unat (address + 8) = unat address + unat (8 :: uint32_t)"
    by (simp only: unat_add_lem)
  then show ?thesis by simp
qed

lemma unat_next_index:
  fixes i n :: uint32_t
  assumes "i < n"
  shows "unat (i + 1) = unat i + 1"
proof -
  from assms have "unat i < unat n"
    by (simp add: word_less_nat_alt)
  moreover have "unat n < 2 ^ 32"
    using unsigned_less [of n] by simp
  ultimately have "unat i + unat (1 :: uint32_t) < 2 ^ LENGTH(32)"
    by simp
  then have "unat (i + 1) = unat i + unat (1 :: uint32_t)"
    by (simp only: unat_add_lem)
  then show ?thesis by simp
qed

text \<open>What a run of the loop adds to the trace.\<close>
lemma program_calls_append:
  "program_calls (xs @ ys) = program_calls xs @ program_calls ys"
  by (induction xs rule: program_calls.induct) simp_all

lemma read_backs_append:
  "read_backs (xs @ ys) = read_backs xs @ read_backs ys"
  by (induction xs rule: read_backs.induct) simp_all

lemma run_program_calls:
  assumes "write_run H data len i address status evs st"
    and "k < length (program_calls evs)"
  shows "\<exists>r. program_calls evs ! k = (address + 8 * of_nat k, src_dword data (i + of_nat k), r) \<and>
             (r \<noteq> HAL_OK \<longrightarrow>
                length (program_calls evs) = Suc k \<and> st = status OR FLASH_ERROR_WRITE H) \<and>
             (r = HAL_OK \<longrightarrow> k < length (read_backs evs))"
  using assms
proof (induction arbitrary: k rule: write_run.induct)
  case (run_next i address status evs st)
  show ?case
  proof (cases k)
    case 0
    then show ?thesis by simp
  next
    case (Suc j)
    with run_next.prems have "j < length (program_calls evs)"
      by simp
    from run_next.IH [OF this] Suc show ?thesis
      by (simp add: algebra_simps)
  qed
qed simp_all

lemma run_read_backs:
  assumes "write_run H data len i address status evs st"
    and "k < length (read_backs evs)"
  shows "\<exists>got. read_backs evs ! k = (address + 8 * of_nat k, got, src_dword data (i + of_nat k)) \<and>
             k < length (program_calls evs) \<and>
             program_calls evs ! k =
               (address + 8 * of_nat k, src_dword data (i + of_nat k), HAL_OK) \<and>
             (got \<noteq> src_dword data (i + of_nat k) \<longrightarrow>
                length (program_calls evs) = Suc k \<and> st = status OR FLASH_ERROR_READBACK H)"
  using assms
proof (induction arbitrary: k rule: write_run.induct)
  case (run_next i address status evs st)
  show ?case
  proof (cases k)
    case 0
    then show ?thesis by simp
  next
    case (Suc j)
    with run_next.prems have "j < length (read_backs evs)"
      by simp
    from run_next.IH [OF this] Suc show ?thesis
      by (simp add: algebra_simps)
  qed
qed simp_all

lemma run_in_bounds:
  assumes "write_run H data len i address status evs st"
    and "k < length (program_calls evs)"
  shows "unat (address + 8 * of_nat k) = unat address + 8 * k \<and>
         address + 8 * of_nat k \<le> USER_FLASH_END_ADDRESS - 8 \<and>
         unat (i + of_nat k) = unat i + k \<and>
         i + of_nat k < len div 2"
  using assms
proof (induction arbitrary: k rule: write_run.induct)
  case (run_next i address status evs st)
  show ?case
  proof (cases k)
    case 0
    with run_next.hyps show ?thesis by simp
  next
    case (Suc j)
    with run_next.prems have "j < length (program_calls evs)"
      by simp
    from run_next.IH [OF this] Suc unat_next_address [OF run_next.hyps(2)]
      unat_next_index [OF run_next.hyps(1)]
    show ?thesis
      by (simp add: algebra_simps)
  qed
qed simp_all

lemma run_without_fault:
  assumes "write_run H data len i address status evs st"
    and "\<forall>x \<in> set (program_calls evs). snd (snd x) = HAL_OK"
    and "\<forall>x \<in> set (read_backs evs). fst (snd x) = snd (snd x)"
  shows "st = status \<and>
         (unat (len div 2) \<le> unat i + length (program_calls evs) \<or>
          unat (USER_FLASH_END_ADDRESS - 8) < unat address + 8 * length (program_calls evs))"
  using assms
proof (induction rule: write_run.induct)
  case (run_done i address status)
  then show ?case
    by (auto simp: word_less_nat_alt word_le_nat_alt)
next
  case (run_next i address status evs st)
  from run_next.IH run_next.prems unat_next_address [OF run_next.hyps(2)]
    unat_next_index [OF run_next.hyps(1)]
  show ?case
    by auto
qed simp_all

text \<open>\<^verbatim>\<open>flash_write\<close> is a run of the loop from index 0, between unlocking and locking.\<close>
lemma flash_write_run:
  assumes "flash_write H hal address data len s = (st, s')"
  shows "\<exists>evs. calls s' = calls s @ Unlock_Call # evs @ [Lock_Call] \<and>
               write_run H data len 0 address (FLASH_OK H) evs st"
proof -
  obtain s2 where loop:
    "flash_write_loop H hal data len 0 address (FLASH_OK H) (HAL_FLASH_Unlock s) = (st, s2)"
    and s': "s' = HAL_FLASH_Lock s2"
    using assms by (auto simp: flash_write_def Let_def split: prod.splits)
  from flash_write_loop_run [OF loop] obtain evs where
    "calls s2 = calls (HAL_FLASH_Unlock s) @ evs"
    "write_run H data len 0 address (FLASH_OK H) evs st"
    by blast
  with s' show ?thesis
    by (auto simp: HAL_FLASH_Lock_def HAL_FLASH_Unlock_def)
qed

subsection \<open>The lock bit on return\<close>

lemma flash_write_relocks:
  "locked (snd (flash_write H hal address data len s)) \<and>
   last (calls (snd (flash_write H hal address data len s))) = Lock_Call"
  by (simp add: flash_write_def HAL_FLASH_Lock_def Let_def split: prod.splits)

lemma FLASH_Init_relocks:
  "locked (FLASH_Init hal s) \<and> last (calls (FLASH_Init hal s)) = Lock_Call"
  by (simp add: FLASH_Init_def HAL_FLASH_Lock_def Let_def)

lemma flash_erase_relocks:
  "flash_erase H hal address s = Inr (st, s') \<Longrightarrow> locked s' \<and> last (calls s') = Lock_Call"
  by (auto simp: flash_erase_def HAL_FLASH_Lock_def Let_def split: prod.splits if_splits)

lemma flash_erase_returns:
  "FLASH_PAGE_SIZE H \<noteq> 0 \<Longrightarrow> \<exists>st s'. flash_erase H hal address s = Inr (st, s')"
  by (simp add: flash_erase_def Let_def split: prod.splits)

section \<open>The claims about flash\_erase\<close>

text \<open>The page counts of the addresses the examples below use.\<close>
lemma NbrOfPages_512K_base: "NbrOfPages_from part_512K 0x08000000 = 256"
  by (simp add: NbrOfPages_from_def part_512K_def FLASH_START_ADRESS_def)

lemma NbrOfPages_1M_base: "NbrOfPages_from part_1M 0x08000000 = 512"
  by (simp add: NbrOfPages_from_def part_1M_def part_512K_def FLASH_START_ADRESS_def)

lemma NbrOfPages_1M_page1: "NbrOfPages_from part_1M 0x08000800 = 511"
  by (simp add: NbrOfPages_from_def part_1M_def part_512K_def FLASH_START_ADRESS_def)

text \<open>
  C1. Whenever the page count computed for \<open>address\<close> is at most 256, \<^verbatim>\<open>flash_erase\<close>
  makes no erase call on bank 1: between unlocking and locking it makes exactly one
  erase call, on bank 2, of as many pages as the count, starting at page 256 minus the
  count. This holds for every address, also one in bank 1.
\<close>
theorem flash_erase_within_one_bank:
  assumes "FLASH_PAGE_SIZE H \<noteq> 0"
    and "NbrOfPages_from H address \<le> FLASH_PAGE_NBPERBANK"
  shows "\<exists>st s' r. flash_erase H hal address s = Inr (st, s') \<and>
           calls s' = calls s @
             [Unlock_Call,
              Erase_Call \<lparr>TypeErase = FLASH_TYPEERASE_PAGES, Banks = FLASH_BANK_2,
                          Page = 256 - NbrOfPages_from H address,
                          NbPages = NbrOfPages_from H address\<rparr> r,
              Lock_Call]"
  using flash_erase_one_bank [OF assms, of hal s]
  by (auto simp: FLASH_PAGE_NBPERBANK_def split: prod.splits)

text \<open>
  On the 512 KiB part the flash base, an address of bank 1, has 256 pages to the end of
  the flash: the only erase call is on bank 2, of 256 pages from page 0.
\<close>
theorem flash_erase_within_one_bank_witness:
  "FLASH_PAGE_SIZE part_512K \<noteq> 0 \<and>
   NbrOfPages_from part_512K 0x08000000 \<le> FLASH_PAGE_NBPERBANK \<and>
   (\<exists>st s' r. flash_erase part_512K (mock_HAL [] [] []) 0x08000000 mock_mcu = Inr (st, s') \<and>
      calls s' =
        [Unlock_Call,
         Erase_Call \<lparr>TypeErase = FLASH_TYPEERASE_PAGES, Banks = FLASH_BANK_2,
                     Page = 0, NbPages = 256\<rparr> r,
         Lock_Call])"
proof -
  have h1: "FLASH_PAGE_SIZE part_512K \<noteq> 0"
    by (simp add: part_512K_def)
  have h2: "NbrOfPages_from part_512K 0x08000000 \<le> FLASH_PAGE_NBPERBANK"
    by (simp add: NbrOfPages_512K_base FLASH_PAGE_NBPERBANK_def)
  from flash_erase_within_one_bank [OF h1 h2, of "mock_HAL [] [] []" mock_mcu] h1 h2
  show ?thesis
    by (simp add: NbrOfPages_512K_base mock_mcu_def)
qed

text \<open>
  C2, as stated, promises the erase of bank 2 after the one of bank 1 for every address
  with more than 256 pages. On the 1 MiB part, from the second page of the flash
  (511 pages) and with a HAL that fails the erase of bank 1, the driver makes the call
  on bank 1 (255 pages from page 1), no call on bank 2, and returns \<open>FLASH_ERROR\<close>.
\<close>
theorem flash_erase_two_banks_counterexample:
  "FLASH_PAGE_NBPERBANK < NbrOfPages_from part_1M 0x08000800 \<and>
   flash_erase part_1M (mock_HAL [FLASH_BANK_1] [] []) 0x08000800 mock_mcu =
     Inr (FLASH_ERROR part_1M,
          mock_mcu\<lparr>calls :=
            [Unlock_Call,
             Erase_Call \<lparr>TypeErase = FLASH_TYPEERASE_PAGES, Banks = FLASH_BANK_1,
                         Page = 1, NbPages = 255\<rparr> HAL_ERROR,
             Lock_Call]\<rparr>)"
proof -
  have h1: "FLASH_PAGE_SIZE part_1M \<noteq> 0"
    by (simp add: part_1M_def part_512K_def)
  have h2: "FLASH_PAGE_NBPERBANK < NbrOfPages_from part_1M 0x08000800"
    by (simp add: NbrOfPages_1M_page1 FLASH_PAGE_NBPERBANK_def)
  show ?thesis
    using h2
    by (simp add: flash_erase_two_banks [OF h1 h2] NbrOfPages_1M_page1 FLASH_PAGE_NBPERBANK_def
        mock_HAL_def mock_mcu_def)
qed

text \<open>
  C2, amended. Whenever the page count computed for \<open>address\<close> exceeds 256,
  \<^verbatim>\<open>flash_erase\<close> first makes an erase call on bank 1, of the count modulo 256 pages,
  starting at page 256 minus that number. If the HAL answers it with \<open>HAL_OK\<close>, the driver
  then makes an erase call on bank 2, of 256 pages starting at page 0; otherwise it makes
  no further erase call.
\<close>
theorem flash_erase_across_banks:
  assumes "FLASH_PAGE_SIZE H \<noteq> 0"
    and "FLASH_PAGE_NBPERBANK < NbrOfPages_from H address"
  shows "\<exists>st s' r1 r2.
           flash_erase H hal address s = Inr (st, s') \<and>
           r1 = fst (hal_erase hal
                  \<lparr>TypeErase = FLASH_TYPEERASE_PAGES, Banks = FLASH_BANK_1,
                    Page = 256 - NbrOfPages_from H address mod 256,
                    NbPages = NbrOfPages_from H address mod 256\<rparr> (hw s)) \<and>
           calls s' = calls s @
             (if r1 = HAL_OK then
                [Unlock_Call,
                 Erase_Call \<lparr>TypeErase = FLASH_TYPEERASE_PAGES, Banks = FLASH_BANK_1,
                             Page = 256 - NbrOfPages_from H address mod 256,
                             NbPages = NbrOfPages_from H address mod 256\<rparr> r1,
                 Erase_Call \<lparr>TypeErase = FLASH_TYPEERASE_PAGES, Banks = FLASH_BANK_2,
                             Page = 0, NbPages = 256\<rparr> r2,
                 Lock_Call]
              else
                [Unlock_Call,
                 Erase_Call \<lparr>TypeErase = FLASH_TYPEERASE_PAGES, Banks = FLASH_BANK_1,
                             Page = 256 - NbrOfPages_from H address mod 256,
                             NbPages = NbrOfPages_from H address mod 256\<rparr> r1,
                 Lock_Call])"
  using flash_erase_two_banks [OF assms, of hal s]
  by (auto simp: FLASH_PAGE_NBPERBANK_def Let_def split: prod.splits)

text \<open>
  On the 1 MiB part, from the second page of the flash and with a HAL that erases: 255
  pages of bank 1 from page 1, then the 256 pages of bank 2.
\<close>
theorem flash_erase_across_banks_witness:
  "FLASH_PAGE_SIZE part_1M \<noteq> 0 \<and>
   FLASH_PAGE_NBPERBANK < NbrOfPages_from part_1M 0x08000800 \<and>
   (\<exists>st s' r1 r2.
      flash_erase part_1M (mock_HAL [] [] []) 0x08000800 mock_mcu = Inr (st, s') \<and>
      r1 = HAL_OK \<and>
      calls s' =
        [Unlock_Call,
         Erase_Call \<lparr>TypeErase = FLASH_TYPEERASE_PAGES, Banks = FLASH_BANK_1,
                     Page = 1, NbPages = 255\<rparr> r1,
         Erase_Call \<lparr>TypeErase = FLASH_TYPEERASE_PAGES, Banks = FLASH_BANK_2,
                     Page = 0, NbPages = 256\<rparr> r2,
         Lock_Call])"
proof -
  have h1: "FLASH_PAGE_SIZE part_1M \<noteq> 0"
    by (simp add: part_1M_def part_512K_def)
  have h2: "FLASH_PAGE_NBPERBANK < NbrOfPages_from part_1M 0x08000800"
    by (simp add: NbrOfPages_1M_page1 FLASH_PAGE_NBPERBANK_def)
  from flash_erase_across_banks [OF h1 h2, of "mock_HAL [] [] []" mock_mcu] h1 h2
  show ?thesis
    by (simp add: NbrOfPages_1M_page1 mock_mcu_def mock_HAL_def)
qed

text \<open>
  C3. \<^verbatim>\<open>flash_erase\<close> returns \<open>FLASH_OK\<close> exactly when every erase call it made was
  answered with \<open>HAL_OK\<close>, and \<open>FLASH_ERROR\<close> otherwise. If the erase call on bank 1 is
  not answered with \<open>HAL_OK\<close>, it returns \<open>FLASH_ERROR\<close> and has made no erase call on
  bank 2. (The two enumerators are taken to differ, and the page size not to be zero.)
\<close>
theorem flash_erase_status:
  assumes "FLASH_PAGE_SIZE H \<noteq> 0" and "FLASH_OK H \<noteq> FLASH_ERROR H"
  shows "\<exists>st s' evs.
           flash_erase H hal address s = Inr (st, s') \<and> calls s' = calls s @ evs \<and>
           (st = FLASH_OK H \<longleftrightarrow> (\<forall>e r. Erase_Call e r \<in> set evs \<longrightarrow> r = HAL_OK)) \<and>
           (st = FLASH_OK H \<or> st = FLASH_ERROR H) \<and>
           (\<forall>e r. Erase_Call e r \<in> set evs \<and> Banks e = FLASH_BANK_1 \<and> r \<noteq> HAL_OK \<longrightarrow>
                  st = FLASH_ERROR H \<and>
                  (\<forall>e' r'. Erase_Call e' r' \<in> set evs \<longrightarrow> Banks e' \<noteq> FLASH_BANK_2))"
proof (cases "NbrOfPages_from H address \<le> FLASH_PAGE_NBPERBANK")
  case True
  show ?thesis
    using assms(2) flash_erase_one_bank [OF assms(1) True, of hal s]
    by (auto split: prod.splits)
next
  case False
  then have "FLASH_PAGE_NBPERBANK < NbrOfPages_from H address"
    by simp
  from flash_erase_two_banks [OF assms(1) this, of hal s] assms(2)
  show ?thesis
    by (auto simp: Let_def split: prod.splits if_splits)
qed

text \<open>
  On the 1 MiB part, with a HAL that fails the erase of bank 1: the failed call is in
  the trace and the result is \<open>FLASH_ERROR\<close>.
\<close>
theorem flash_erase_status_witness:
  "FLASH_PAGE_SIZE part_1M \<noteq> 0 \<and> FLASH_OK part_1M \<noteq> FLASH_ERROR part_1M \<and>
   (\<exists>st s'. flash_erase part_1M (mock_HAL [FLASH_BANK_1] [] []) 0x08000800 mock_mcu = Inr (st, s') \<and>
      Erase_Call \<lparr>TypeErase = FLASH_TYPEERASE_PAGES, Banks = FLASH_BANK_1,
                  Page = 1, NbPages = 255\<rparr> HAL_ERROR \<in> set (calls s') \<and>
      st = FLASH_ERROR part_1M \<and> st \<noteq> FLASH_OK part_1M)"
proof -
  have h1: "FLASH_PAGE_SIZE part_1M \<noteq> 0"
    by (simp add: part_1M_def part_512K_def)
  have h2: "FLASH_OK part_1M \<noteq> FLASH_ERROR part_1M"
    by (simp add: part_1M_def part_512K_def)
  have h3: "FLASH_PAGE_NBPERBANK < NbrOfPages_from part_1M 0x08000800"
    by (simp add: NbrOfPages_1M_page1 FLASH_PAGE_NBPERBANK_def)
  have run: "flash_erase part_1M (mock_HAL [FLASH_BANK_1] [] []) 0x08000800 mock_mcu =
     Inr (FLASH_ERROR part_1M,
          mock_mcu\<lparr>calls :=
            [Unlock_Call,
             Erase_Call \<lparr>TypeErase = FLASH_TYPEERASE_PAGES, Banks = FLASH_BANK_1,
                         Page = 1, NbPages = 255\<rparr> HAL_ERROR,
             Lock_Call]\<rparr>)"
    by (simp add: flash_erase_two_banks [OF h1 h3] NbrOfPages_1M_page1 FLASH_PAGE_NBPERBANK_def
        mock_HAL_def mock_mcu_def)
  from flash_erase_status [OF h1 h2, of "mock_HAL [FLASH_BANK_1] [] []" "0x08000800" mock_mcu]
  obtain st s' evs where
    r: "flash_erase part_1M (mock_HAL [FLASH_BANK_1] [] []) 0x08000800 mock_mcu = Inr (st, s')"
    and e: "calls s' = calls mock_mcu @ evs"
    and b: "\<forall>e r. Erase_Call e r \<in> set evs \<and> Banks e = FLASH_BANK_1 \<and> r \<noteq> HAL_OK \<longrightarrow>
                  st = FLASH_ERROR part_1M \<and>
                  (\<forall>e' r'. Erase_Call e' r' \<in> set evs \<longrightarrow> Banks e' \<noteq> FLASH_BANK_2)"
    by blast
  from r e run have evs: "evs = [Unlock_Call,
             Erase_Call \<lparr>TypeErase = FLASH_TYPEERASE_PAGES, Banks = FLASH_BANK_1,
                         Page = 1, NbPages = 255\<rparr> HAL_ERROR,
             Lock_Call]"
    by (simp add: mock_mcu_def)
  with b have "st = FLASH_ERROR part_1M"
    by simp
  with h1 h2 r e evs show ?thesis
    by (simp add: mock_mcu_def)
qed

text \<open>
  C9. Whenever the page count computed for \<open>address\<close> is above 256 and a multiple of 256,
  the erase call on bank 1 asks for 0 pages starting at page 256, and it is the only
  erase call on bank 1.
\<close>
theorem flash_erase_multiple_of_bank:
  assumes "FLASH_PAGE_SIZE H \<noteq> 0"
    and "FLASH_PAGE_NBPERBANK < NbrOfPages_from H address"
    and "NbrOfPages_from H address mod FLASH_PAGE_NBPERBANK = 0"
  shows "\<exists>st s' r evs.
           flash_erase H hal address s = Inr (st, s') \<and>
           calls s' = calls s @
             Unlock_Call #
             Erase_Call \<lparr>TypeErase = FLASH_TYPEERASE_PAGES, Banks = FLASH_BANK_1,
                         Page = 256, NbPages = 0\<rparr> r # evs \<and>
           (\<forall>e r'. Erase_Call e r' \<in> set evs \<longrightarrow> Banks e = FLASH_BANK_2)"
  using flash_erase_two_banks [OF assms(1,2), of hal s] assms(3)
  by (auto simp: Let_def FLASH_PAGE_NBPERBANK_def split: prod.splits if_splits)

text \<open>
  On the 1 MiB part the flash base has 512 pages to the end of the flash, and the call on
  bank 1 asks for 0 pages from page 256.
\<close>
theorem flash_erase_multiple_of_bank_witness:
  "FLASH_PAGE_SIZE part_1M \<noteq> 0 \<and>
   NbrOfPages_from part_1M FLASH_START_ADRESS = 512 \<and>
   FLASH_PAGE_NBPERBANK < NbrOfPages_from part_1M FLASH_START_ADRESS \<and>
   NbrOfPages_from part_1M FLASH_START_ADRESS mod FLASH_PAGE_NBPERBANK = 0 \<and>
   (\<exists>st s' r evs.
      flash_erase part_1M (mock_HAL [] [] []) FLASH_START_ADRESS mock_mcu = Inr (st, s') \<and>
      calls s' =
        Unlock_Call #
        Erase_Call \<lparr>TypeErase = FLASH_TYPEERASE_PAGES, Banks = FLASH_BANK_1,
                    Page = 256, NbPages = 0\<rparr> r # evs)"
proof -
  have n: "NbrOfPages_from part_1M FLASH_START_ADRESS = 512"
    using NbrOfPages_1M_base by (simp add: FLASH_START_ADRESS_def)
  have h1: "FLASH_PAGE_SIZE part_1M \<noteq> 0"
    by (simp add: part_1M_def part_512K_def)
  have h2: "FLASH_PAGE_NBPERBANK < NbrOfPages_from part_1M FLASH_START_ADRESS"
    by (simp add: n FLASH_PAGE_NBPERBANK_def)
  have h3: "NbrOfPages_from part_1M FLASH_START_ADRESS mod FLASH_PAGE_NBPERBANK = 0"
    by (simp add: n FLASH_PAGE_NBPERBANK_def)
  from flash_erase_multiple_of_bank [OF h1 h2 h3, of "mock_HAL [] [] []" mock_mcu] n h1 h2 h3
  show ?thesis
    by (auto simp: mock_mcu_def)
qed

section \<open>The claims about the lock\<close>

text \<open>
  C6. \<^verbatim>\<open>FLASH_Init\<close>, \<^verbatim>\<open>flash_erase\<close> and \<^verbatim>\<open>flash_write\<close> return with the flash
  controller locked, the lock call being the last thing they do: whatever the HAL
  answers to the erase and program calls, whatever the clearing of the flags does, and
  whatever the status returned. \<^verbatim>\<open>flash_erase\<close> returns whenever the page size is not
  zero.
\<close>
theorem driver_relocks:
  "locked (FLASH_Init hal s) \<and> last (calls (FLASH_Init hal s)) = Lock_Call \<and>
   (\<forall>st s'. flash_erase H hal address s = Inr (st, s') \<longrightarrow>
      locked s' \<and> last (calls s') = Lock_Call) \<and>
   (FLASH_PAGE_SIZE H \<noteq> 0 \<longrightarrow> (\<exists>st s'. flash_erase H hal address s = Inr (st, s'))) \<and>
   locked (snd (flash_write H hal address data len s)) \<and>
   last (calls (snd (flash_write H hal address data len s))) = Lock_Call"
  using flash_write_relocks [of H hal address data len s] FLASH_Init_relocks [of hal s]
    flash_erase_relocks [of H hal address s] flash_erase_returns [of H hal address s]
  by blast

text \<open>
  With a HAL that clears the flags, one that fails the erase of bank 1 and one that fails
  the first program call: each time the controller is locked on return.
\<close>
theorem driver_relocks_witness:
  "FLASH_PAGE_SIZE part_1M \<noteq> 0 \<and>
   locked (FLASH_Init (mock_HAL [] [] []) (mock_mcu\<lparr>locked := False\<rparr>)) \<and>
   (\<exists>st s'. flash_erase part_1M (mock_HAL [FLASH_BANK_1] [] []) 0x08000800 mock_mcu = Inr (st, s') \<and>
      locked s' \<and> last (calls s') = Lock_Call) \<and>
   locked (snd (flash_write part_1M (mock_HAL [] [0x08008000] []) 0x08008000 mock_data 4 mock_mcu))"
proof -
  have h: "FLASH_PAGE_SIZE part_1M \<noteq> 0"
    by (simp add: part_1M_def part_512K_def)
  from driver_relocks [where hal = "mock_HAL [] [] []" and s = "mock_mcu\<lparr>locked := False\<rparr>"]
  have 1: "locked (FLASH_Init (mock_HAL [] [] []) (mock_mcu\<lparr>locked := False\<rparr>))"
    by blast
  from driver_relocks [where H = part_1M and hal = "mock_HAL [FLASH_BANK_1] [] []"
      and address = "0x08000800" and s = mock_mcu] h
  have 2: "\<exists>st s'. flash_erase part_1M (mock_HAL [FLASH_BANK_1] [] []) 0x08000800 mock_mcu = Inr (st, s') \<and>
      locked s' \<and> last (calls s') = Lock_Call"
    by blast
  from driver_relocks [where H = part_1M and hal = "mock_HAL [] [0x08008000] []"
      and address = "0x08008000" and s = mock_mcu and data = mock_data and len = 4]
  have 3: "locked (snd (flash_write part_1M (mock_HAL [] [0x08008000] []) 0x08008000 mock_data 4 mock_mcu))"
    by blast
  from h 1 2 3 show ?thesis by blast
qed

section \<open>The claims about flash\_write\<close>

text \<open>
  C7. With a length of zero, \<^verbatim>\<open>flash_write\<close> unlocks and locks the controller and does
  nothing else: no program call, and \<open>FLASH_OK\<close> as the result.
\<close>
theorem flash_write_nothing:
  "flash_write H hal address data 0 s =
     (FLASH_OK H, s\<lparr>locked := True, calls := calls s @ [Unlock_Call, Lock_Call]\<rparr>)"
  by (simp add: flash_write_def Let_def flash_write_loop.simps [of _ _ _ 0]
      HAL_FLASH_Unlock_def HAL_FLASH_Lock_def)

text \<open>
  Two runs on the test double, from an erased machine. In the first, three double-words
  are to be written and the second reads back wrong. In the second, four double-words
  are to be written from 16 bytes below the end of the application region.
\<close>
lemmas mock_simps = flash_write_def Let_def flash_write_loop.simps HAL_FLASH_Unlock_def
  HAL_FLASH_Lock_def HAL_FLASH_Program_def read_back_def mock_HAL_def mock_mcu_def
  USER_FLASH_END_ADDRESS_def part_512K_def

lemma mock_run_mismatch:
  "fst (flash_write part_512K (mock_HAL [] [] [0x08008008]) 0x08008000 mock_data 6 mock_mcu) =
     FLASH_ERROR_READBACK part_512K \<and>
   calls (snd (flash_write part_512K (mock_HAL [] [] [0x08008008]) 0x08008000 mock_data 6 mock_mcu)) =
     [Unlock_Call,
      Program_Call 0x08008000 (src_dword mock_data 0) HAL_OK,
      Read_Back 0x08008000 (src_dword mock_data 0) (src_dword mock_data 0),
      Program_Call 0x08008008 (src_dword mock_data 1) HAL_OK,
      Read_Back 0x08008008 (src_dword mock_data 1 + 1) (src_dword mock_data 1),
      Lock_Call]"
  by (simp add: mock_simps)

lemma mock_run_truncated:
  "fst (flash_write part_512K (mock_HAL [] [] []) 0x0807FFF0 mock_data 8 mock_mcu) =
     FLASH_OK part_512K \<and>
   calls (snd (flash_write part_512K (mock_HAL [] [] []) 0x0807FFF0 mock_data 8 mock_mcu)) =
     [Unlock_Call,
      Program_Call 0x0807FFF0 (src_dword mock_data 0) HAL_OK,
      Read_Back 0x0807FFF0 (src_dword mock_data 0) (src_dword mock_data 0),
      Program_Call 0x0807FFF8 (src_dword mock_data 1) HAL_OK,
      Read_Back 0x0807FFF8 (src_dword mock_data 1) (src_dword mock_data 1),
      Lock_Call]"
  by (simp add: mock_simps)

text \<open>
  C4. \<^verbatim>\<open>flash_write\<close> stops at the first faulty double-word and its result tells the
  cause. The \<open>k\<close>-th program call is the one for double-word \<open>k\<close>, at \<open>address + 8 * k\<close>.
  If the HAL does not answer it with \<open>HAL_OK\<close>, it is the last program call and the result
  is \<open>FLASH_OK | FLASH_ERROR_WRITE\<close>, which is \<open>FLASH_ERROR_WRITE\<close> when \<open>FLASH_OK\<close> is 0.
  If the HAL answers it with \<open>HAL_OK\<close>, the 8 bytes at that address are read back and
  compared with the source double-word; if they differ, it is the last program call and
  the result is \<open>FLASH_OK | FLASH_ERROR_READBACK\<close>, which is \<open>FLASH_ERROR_READBACK\<close> when
  \<open>FLASH_OK\<close> is 0.
\<close>
theorem flash_write_aborts_at_first_fault:
  assumes "flash_write H hal address data len s = (st, s')"
  shows "\<exists>evs. calls s' = calls s @ evs \<and>
    (\<forall>k a v r. k < length (program_calls evs) \<and> program_calls evs ! k = (a, v, r) \<and>
               r \<noteq> HAL_OK \<longrightarrow>
       a = address + 8 * of_nat k \<and> v = src_dword data (of_nat k) \<and>
       length (program_calls evs) = Suc k \<and>
       st = FLASH_OK H OR FLASH_ERROR_WRITE H \<and>
       (FLASH_OK H = 0 \<longrightarrow> st = FLASH_ERROR_WRITE H)) \<and>
    (\<forall>k a v. k < length (program_calls evs) \<and> program_calls evs ! k = (a, v, HAL_OK) \<longrightarrow>
       k < length (read_backs evs) \<and> (\<exists>got. read_backs evs ! k = (a, got, v))) \<and>
    (\<forall>k a got want. k < length (read_backs evs) \<and> read_backs evs ! k = (a, got, want) \<and>
               got \<noteq> want \<longrightarrow>
       k < length (program_calls evs) \<and> program_calls evs ! k = (a, want, HAL_OK) \<and>
       a = address + 8 * of_nat k \<and> want = src_dword data (of_nat k) \<and>
       length (program_calls evs) = Suc k \<and>
       st = FLASH_OK H OR FLASH_ERROR_READBACK H \<and>
       (FLASH_OK H = 0 \<longrightarrow> st = FLASH_ERROR_READBACK H))"
proof -
  from flash_write_run [OF assms] obtain evs where
    tr: "calls s' = calls s @ Unlock_Call # evs @ [Lock_Call]"
    and run: "write_run H data len 0 address (FLASH_OK H) evs st"
    by blast
  let ?E = "Unlock_Call # evs @ [Lock_Call]"
  have P: "program_calls (evs @ [Lock_Call]) = program_calls evs"
    by (simp add: program_calls_append)
  have R: "read_backs (evs @ [Lock_Call]) = read_backs evs"
    by (simp add: read_backs_append)
  have 1: "a = address + 8 * of_nat k \<and> v = src_dword data (of_nat k) \<and>
       length (program_calls ?E) = Suc k \<and>
       st = FLASH_OK H OR FLASH_ERROR_WRITE H \<and>
       (FLASH_OK H = 0 \<longrightarrow> st = FLASH_ERROR_WRITE H)"
    if "k < length (program_calls ?E) \<and> program_calls ?E ! k = (a, v, r) \<and> r \<noteq> HAL_OK"
    for k a v r
    using run_program_calls [OF run, of k] that
    by (auto simp: P)
  have 2: "k < length (read_backs ?E) \<and> (\<exists>got. read_backs ?E ! k = (a, got, v))"
    if "k < length (program_calls ?E) \<and> program_calls ?E ! k = (a, v, HAL_OK)"
    for k a v
  proof -
    from that have k: "k < length (program_calls evs)"
      and pk: "program_calls evs ! k = (a, v, HAL_OK)"
      by (simp_all add: P)
    from run_program_calls [OF run k] pk have "k < length (read_backs evs)"
      by auto
    from run_read_backs [OF run this] pk this show ?thesis
      by (auto simp: R)
  qed
  have 3: "k < length (program_calls ?E) \<and> program_calls ?E ! k = (a, want, HAL_OK) \<and>
       a = address + 8 * of_nat k \<and> want = src_dword data (of_nat k) \<and>
       length (program_calls ?E) = Suc k \<and>
       st = FLASH_OK H OR FLASH_ERROR_READBACK H \<and>
       (FLASH_OK H = 0 \<longrightarrow> st = FLASH_ERROR_READBACK H)"
    if "k < length (read_backs ?E) \<and> read_backs ?E ! k = (a, got, want) \<and> got \<noteq> want"
    for k a got want
    using run_read_backs [OF run, of k] that
    by (auto simp: P R)
  from tr 1 2 3 show ?thesis
    by blast
qed

text \<open>
  With a wrong read-back of the second of three double-words, the result is
  \<open>FLASH_ERROR_READBACK\<close> and two program calls were made, not three.
\<close>
theorem flash_write_aborts_at_first_fault_witness:
  "fst (flash_write part_512K (mock_HAL [] [] [0x08008008]) 0x08008000 mock_data 6 mock_mcu) =
     FLASH_ERROR_READBACK part_512K \<and>
   length (program_calls
     (calls (snd (flash_write part_512K (mock_HAL [] [] [0x08008008]) 0x08008000 mock_data 6
        mock_mcu)))) = 2 \<and>
   unat (6 div 2 :: uint32_t) = 3"
proof -
  let ?r = "flash_write part_512K (mock_HAL [] [] [0x08008008]) 0x08008000 mock_data 6 mock_mcu"
  let ?E = "[Unlock_Call,
      Program_Call 0x08008000 (src_dword mock_data 0) HAL_OK,
      Read_Back 0x08008000 (src_dword mock_data 0) (src_dword mock_data 0),
      Program_Call 0x08008008 (src_dword mock_data 1) HAL_OK,
      Read_Back 0x08008008 (src_dword mock_data 1 + 1) (src_dword mock_data 1),
      Lock_Call]"
  have "?r = (fst ?r, snd ?r)"
    by simp
  from flash_write_aborts_at_first_fault [OF this] obtain evs where
    tr: "calls (snd ?r) = calls mock_mcu @ evs"
    and rb: "\<forall>k a got want. k < length (read_backs evs) \<and> read_backs evs ! k = (a, got, want) \<and>
               got \<noteq> want \<longrightarrow>
       k < length (program_calls evs) \<and> program_calls evs ! k = (a, want, HAL_OK) \<and>
       a = 0x08008000 + 8 * of_nat k \<and> want = src_dword mock_data (of_nat k) \<and>
       length (program_calls evs) = Suc k \<and>
       fst ?r = FLASH_OK part_512K OR FLASH_ERROR_READBACK part_512K \<and>
       (FLASH_OK part_512K = 0 \<longrightarrow> fst ?r = FLASH_ERROR_READBACK part_512K)"
    by blast
  from tr mock_run_mismatch have evs: "evs = ?E"
    by (simp add: mock_mcu_def)
  have "1 < length (read_backs ?E) \<and>
        read_backs ?E ! 1 = (0x08008008, src_dword mock_data 1 + 1, src_dword mock_data 1) \<and>
        src_dword mock_data 1 + 1 \<noteq> src_dword mock_data 1"
    by simp
  with rb evs have "length (program_calls ?E) = Suc 1 \<and>
       (FLASH_OK part_512K = 0 \<longrightarrow> fst ?r = FLASH_ERROR_READBACK part_512K)"
    by blast
  moreover have "FLASH_OK part_512K = 0"
    by (simp add: part_512K_def)
  ultimately show ?thesis
    using mock_run_mismatch by simp
qed

text \<open>
  C5. For every address, data and length, every program call of \<^verbatim>\<open>flash_write\<close> has a
  destination of at most \<open>USER_FLASH_END_ADDRESS - 8\<close>. The \<open>k\<close>-th call goes to
  \<open>address + 8 * k\<close>, a sum that does not wrap around, so the loop stops as soon as the
  next destination is past that bound, however many double-words are left; from an
  address past the bound nothing is programmed at all.
\<close>
theorem flash_write_stays_in_region:
  assumes "flash_write H hal address data len s = (st, s')"
  shows "\<exists>evs. calls s' = calls s @ evs \<and>
    (\<forall>k < length (program_calls evs).
       fst (program_calls evs ! k) = address + 8 * of_nat k \<and>
       unat (address + 8 * of_nat k) = unat address + 8 * k \<and>
       address + 8 * of_nat k \<le> USER_FLASH_END_ADDRESS - 8) \<and>
    length (program_calls evs) \<le> unat (len div 2) \<and>
    (USER_FLASH_END_ADDRESS - 8 < address \<longrightarrow> program_calls evs = [])"
proof -
  from flash_write_run [OF assms] obtain evs where
    tr: "calls s' = calls s @ Unlock_Call # evs @ [Lock_Call]"
    and run: "write_run H data len 0 address (FLASH_OK H) evs st"
    by blast
  have P: "program_calls (Unlock_Call # evs @ [Lock_Call]) = program_calls evs"
    by (simp add: program_calls_append)
  have 1: "fst (program_calls evs ! k) = address + 8 * of_nat k \<and>
       unat (address + 8 * of_nat k) = unat address + 8 * k \<and>
       address + 8 * of_nat k \<le> USER_FLASH_END_ADDRESS - 8"
    if "k < length (program_calls evs)" for k
    using run_program_calls [OF run that] run_in_bounds [OF run that]
    by auto
  have 2: "length (program_calls evs) \<le> unat (len div 2)"
  proof (cases "program_calls evs")
    case Nil
    then show ?thesis by simp
  next
    case (Cons x xs)
    then have "length xs < length (program_calls evs)"
      by simp
    from run_in_bounds [OF run this] have "unat (of_nat (length xs) :: uint32_t) = length xs"
      and "(of_nat (length xs) :: uint32_t) < len div 2"
      by simp_all
    then have "length xs < unat (len div 2)"
      by (simp add: word_less_nat_alt)
    with Cons show ?thesis by simp
  qed
  have 3: "program_calls evs = []" if "USER_FLASH_END_ADDRESS - 8 < address"
  proof (rule ccontr)
    assume "program_calls evs \<noteq> []"
    then have "0 < length (program_calls evs)"
      by simp
    from run_in_bounds [OF run this] that show False
      by (simp add: not_less [symmetric])
  qed
  from tr 1 2 3 show ?thesis
    unfolding P [symmetric] by blast
qed

text \<open>
  Four double-words to write from \<open>0x0807FFF0\<close>: two are programmed, the second at the
  last double-word of the region.
\<close>
theorem flash_write_stays_in_region_witness:
  "map fst (program_calls
     (calls (snd (flash_write part_512K (mock_HAL [] [] []) 0x0807FFF0 mock_data 8 mock_mcu)))) =
     [0x0807FFF0, 0x0807FFF8] \<and>
   (0x0807FFF8 :: uint32_t) \<le> USER_FLASH_END_ADDRESS - 8 \<and>
   unat (8 div 2 :: uint32_t) = 4"
proof -
  let ?r = "flash_write part_512K (mock_HAL [] [] []) 0x0807FFF0 mock_data 8 mock_mcu"
  have "?r = (fst ?r, snd ?r)"
    by simp
  from flash_write_stays_in_region [OF this] obtain evs where
    tr: "calls (snd ?r) = calls mock_mcu @ evs"
    and b: "\<forall>k < length (program_calls evs).
       fst (program_calls evs ! k) = 0x0807FFF0 + 8 * of_nat k \<and>
       unat (0x0807FFF0 + 8 * of_nat k :: uint32_t) = unat (0x0807FFF0 :: uint32_t) + 8 * k \<and>
       (0x0807FFF0 + 8 * of_nat k :: uint32_t) \<le> USER_FLASH_END_ADDRESS - 8"
    by blast
  from tr mock_run_truncated have evs: "program_calls evs =
     [(0x0807FFF0, src_dword mock_data 0, HAL_OK), (0x0807FFF8, src_dword mock_data 1, HAL_OK)]"
    by (simp add: mock_mcu_def)
  with b [rule_format, of 1] have "(0x0807FFF8 :: uint32_t) \<le> USER_FLASH_END_ADDRESS - 8"
    by simp
  with tr evs show ?thesis
    by (simp add: mock_mcu_def)
qed

text \<open>
  C10. When \<^verbatim>\<open>flash_write\<close> stops with double-words left to write and without a fault
  (every program call answered with \<open>HAL_OK\<close>, every read-back equal to its source
  double-word), it stopped because the next destination is past
  \<open>USER_FLASH_END_ADDRESS - 8\<close>, and its result is \<open>FLASH_OK\<close>.
\<close>
theorem flash_write_truncation_is_success:
  assumes "flash_write H hal address data len s = (st, s')"
    and "calls s' = calls s @ evs"
    and "\<forall>x \<in> set (program_calls evs). snd (snd x) = HAL_OK"
    and "\<forall>x \<in> set (read_backs evs). fst (snd x) = snd (snd x)"
    and "length (program_calls evs) < unat (len div 2)"
  shows "st = FLASH_OK H \<and>
         unat (USER_FLASH_END_ADDRESS - 8) < unat address + 8 * length (program_calls evs)"
proof -
  from flash_write_run [OF assms(1)] obtain evs' where
    tr: "calls s' = calls s @ Unlock_Call # evs' @ [Lock_Call]"
    and run: "write_run H data len 0 address (FLASH_OK H) evs' st"
    by blast
  from tr assms(2) have evs: "evs = Unlock_Call # evs' @ [Lock_Call]"
    by simp
  then have P: "program_calls evs = program_calls evs'" and R: "read_backs evs = read_backs evs'"
    by (simp_all add: program_calls_append read_backs_append)
  from run_without_fault [OF run] assms(3-5) show ?thesis
    by (auto simp: P R)
qed

text \<open>
  Four double-words to write from \<open>0x0807FFF0\<close>: two are programmed, and the result is
  \<open>FLASH_OK\<close>.
\<close>
theorem flash_write_truncation_is_success_witness:
  "fst (flash_write part_512K (mock_HAL [] [] []) 0x0807FFF0 mock_data 8 mock_mcu) =
     FLASH_OK part_512K \<and>
   length (program_calls
     (calls (snd (flash_write part_512K (mock_HAL [] [] []) 0x0807FFF0 mock_data 8 mock_mcu)))) = 2 \<and>
   unat (8 div 2 :: uint32_t) = 4"
proof -
  let ?r = "flash_write part_512K (mock_HAL [] [] []) 0x0807FFF0 mock_data 8 mock_mcu"
  let ?E = "[Unlock_Call,
      Program_Call 0x0807FFF0 (src_dword mock_data 0) HAL_OK,
      Read_Back 0x0807FFF0 (src_dword mock_data 0) (src_dword mock_data 0),
      Program_Call 0x0807FFF8 (src_dword mock_data 1) HAL_OK,
      Read_Back 0x0807FFF8 (src_dword mock_data 1) (src_dword mock_data 1),
      Lock_Call]"
  have r: "?r = (fst ?r, snd ?r)"
    by simp
  have tr: "calls (snd ?r) = calls mock_mcu @ ?E"
    using mock_run_truncated by (simp add: mock_mcu_def)
  have p: "\<forall>x \<in> set (program_calls ?E). snd (snd x) = HAL_OK"
    by simp
  have b: "\<forall>x \<in> set (read_backs ?E). fst (snd x) = snd (snd x)"
    by simp
  have n: "length (program_calls ?E) < unat (8 div 2 :: uint32_t)"
    by simp
  from flash_write_truncation_is_success [OF r tr p b n] tr show ?thesis
    by (simp add: mock_mcu_def)
qed

section \<open>The claim about flash\_jump\_to\_app\<close>

text \<open>
  C8, as stated, has the stack pointer read before the runtime is deinitialised, has
  control handed over with exactly the pair of words read at the call, and has the
  function never return. The driver reads the stack pointer after \<^verbatim>\<open>HAL_DeInit\<close>, and
  the branch is a call that returns when the application does. With a \<^verbatim>\<open>HAL_DeInit\<close>
  that writes \<open>0x20001000\<close> over the word at the base and an application that returns: the
  word at the base is \<open>0x20018000\<close> at the call, the main stack pointer is set to
  \<open>0x20001000\<close>, and \<^verbatim>\<open>flash_jump_to_app\<close> returns.
\<close>
theorem flash_jump_to_app_counterexample:
  "mem_read32 mock_HAL_deinit_writes (hw mock_mcu) (FLASH_APP_START_ADDRESS part_512K) =
     0x20018000 \<and>
   msp (fst (flash_jump_to_app part_512K mock_HAL_deinit_writes app_returns mock_mcu)) =
     0x20001000 \<and>
   calls (fst (flash_jump_to_app part_512K mock_HAL_deinit_writes app_returns mock_mcu)) =
     [DeInit_Call, Set_MSP_Call 0x20001000, Branch_To 0x08008101] \<and>
   snd (flash_jump_to_app part_512K mock_HAL_deinit_writes app_returns mock_mcu) \<noteq> None"
  by (simp add: flash_jump_to_app_def Let_def HAL_DeInit_def set_MSP_def branch_to_def
      mock_HAL_deinit_writes_def mock_HAL_def mock_mcu_def part_512K_def app_returns_def)

text \<open>
  C8, amended. \<^verbatim>\<open>flash_jump_to_app\<close> reads the entry address at
  \<open>FLASH_APP_START_ADDRESS + 4\<close>, calls \<^verbatim>\<open>HAL_DeInit\<close>, then reads the stack pointer at
  \<open>FLASH_APP_START_ADDRESS\<close>, sets the main stack pointer to it and branches to the entry
  address, in this order and doing nothing else. Control is handed over with the entry
  address the flash held at the call and the stack pointer it holds after
  \<^verbatim>\<open>HAL_DeInit\<close>; this is the pair the flash held at the call whenever \<^verbatim>\<open>HAL_DeInit\<close>
  leaves the word at the base as it was. The driver does nothing after the branch:
  \<^verbatim>\<open>flash_jump_to_app\<close> returns exactly if the application does, and in the state the
  application returns in. With an application that never returns, it never returns.
\<close>
theorem flash_jump_to_app_hands_over:
  "fst (flash_jump_to_app H hal app s) =
     s\<lparr>hw := hal_deinit hal (hw s),
       msp := mem_read32 hal (hal_deinit hal (hw s)) (FLASH_APP_START_ADDRESS H),
       jumped := Some (mem_read32 hal (hw s) (FLASH_APP_START_ADDRESS H + 4)),
       calls := calls s @
         [DeInit_Call,
          Set_MSP_Call (mem_read32 hal (hal_deinit hal (hw s)) (FLASH_APP_START_ADDRESS H)),
          Branch_To (mem_read32 hal (hw s) (FLASH_APP_START_ADDRESS H + 4))]\<rparr> \<and>
   snd (flash_jump_to_app H hal app s) =
     app (mem_read32 hal (hw s) (FLASH_APP_START_ADDRESS H + 4))
       (fst (flash_jump_to_app H hal app s)) \<and>
   ((\<forall>entry m. app entry m = None) \<longrightarrow> snd (flash_jump_to_app H hal app s) = None) \<and>
   (mem_read32 hal (hal_deinit hal (hw s)) (FLASH_APP_START_ADDRESS H) =
      mem_read32 hal (hw s) (FLASH_APP_START_ADDRESS H) \<longrightarrow>
    msp (fst (flash_jump_to_app H hal app s)) =
      mem_read32 hal (hw s) (FLASH_APP_START_ADDRESS H) \<and>
    jumped (fst (flash_jump_to_app H hal app s)) =
      Some (mem_read32 hal (hw s) (FLASH_APP_START_ADDRESS H + 4)) \<and>
    calls (fst (flash_jump_to_app H hal app s)) = calls s @
      [DeInit_Call,
       Set_MSP_Call (mem_read32 hal (hw s) (FLASH_APP_START_ADDRESS H)),
       Branch_To (mem_read32 hal (hw s) (FLASH_APP_START_ADDRESS H + 4))])"
  by (simp add: flash_jump_to_app_def Let_def HAL_DeInit_def set_MSP_def branch_to_def)

text \<open>
  The machine of the example holds the stack pointer \<open>0x20018000\<close> and the entry address
  \<open>0x08008101\<close>; the plain test double leaves the flash alone in \<^verbatim>\<open>HAL_DeInit\<close>, and the
  application keeps the processor.
\<close>
theorem flash_jump_to_app_hands_over_witness:
  "mem_read32 (mock_HAL [] [] []) (hw mock_mcu) (FLASH_APP_START_ADDRESS part_512K) = 0x20018000 \<and>
   mem_read32 (mock_HAL [] [] []) (hw mock_mcu) (FLASH_APP_START_ADDRESS part_512K + 4) = 0x08008101 \<and>
   msp (fst (flash_jump_to_app part_512K (mock_HAL [] [] []) app_runs_on mock_mcu)) = 0x20018000 \<and>
   jumped (fst (flash_jump_to_app part_512K (mock_HAL [] [] []) app_runs_on mock_mcu)) =
     Some 0x08008101 \<and>
   calls (fst (flash_jump_to_app part_512K (mock_HAL [] [] []) app_runs_on mock_mcu)) =
     [DeInit_Call, Set_MSP_Call 0x20018000, Branch_To 0x08008101] \<and>
   snd (flash_jump_to_app part_512K (mock_HAL [] [] []) app_runs_on mock_mcu) = None"
proof -
  let ?j = "flash_jump_to_app part_512K (mock_HAL [] [] []) app_runs_on mock_mcu"
  have sp: "mem_read32 (mock_HAL [] [] []) (hw mock_mcu) (FLASH_APP_START_ADDRESS part_512K) =
      0x20018000"
    by (simp add: mock_HAL_def mock_mcu_def part_512K_def)
  have entry: "mem_read32 (mock_HAL [] [] []) (hw mock_mcu) (FLASH_APP_START_ADDRESS part_512K + 4) =
      0x08008101"
    by (simp add: mock_HAL_def mock_mcu_def part_512K_def)
  have same: "mem_read32 (mock_HAL [] [] []) (hal_deinit (mock_HAL [] [] []) (hw mock_mcu))
      (FLASH_APP_START_ADDRESS part_512K) =
     mem_read32 (mock_HAL [] [] []) (hw mock_mcu) (FLASH_APP_START_ADDRESS part_512K)"
    by (simp add: mock_HAL_def)
  have never: "\<forall>entry m. app_runs_on entry m = None"
    by (simp add: app_runs_on_def)
  from flash_jump_to_app_hands_over [of part_512K "mock_HAL [] [] []" app_runs_on mock_mcu]
    same never
  have "msp (fst ?j) =
      mem_read32 (mock_HAL [] [] []) (hw mock_mcu) (FLASH_APP_START_ADDRESS part_512K) \<and>
    jumped (fst ?j) =
      Some (mem_read32 (mock_HAL [] [] []) (hw mock_mcu) (FLASH_APP_START_ADDRESS part_512K + 4)) \<and>
    calls (fst ?j) = calls mock_mcu @
      [DeInit_Call,
       Set_MSP_Call (mem_read32 (mock_HAL [] [] []) (hw mock_mcu) (FLASH_APP_START_ADDRESS part_512K)),
       Branch_To (mem_read32 (mock_HAL [] [] []) (hw mock_mcu) (FLASH_APP_START_ADDRESS part_512K + 4))] \<and>
    snd ?j = None"
    by blast
  with sp entry show ?thesis
    by (simp add: mock_mcu_def)
qed

end
